theory Spec2Isabelle
  imports Main
begin

section \<open>The syntax tree the generator reads\<close>

text \<open>
  The generator works on the syntax tree built by the Go parser. Only the node kinds
  that \<open>main.go\<close> tells apart are constructors of their own: an identifier, a pointer
  type \<open>*X\<close>, a qualified reference \<open>X.Sel\<close>, a function type and an interface type.
  \<open>ArrayType\<close> (\<open>[]T\<close>, kept as an example of a composite type) and \<open>OtherExpr\<close> stand
  for every remaining kind of expression node.

  A \<open>Field\<close> is one entry of a parameter list, a result list or an interface body:
  the names it declares (several for \<open>a, b T\<close>, none for an unnamed parameter or an
  embedded element) and their common type. The parameter and result lists of a
  function type are pointers in Go and may be \<open>nil\<close>, which is \<open>None\<close> here.
\<close>

datatype Expr =
    Ident string
  | StarExpr Expr
  | SelectorExpr Expr string
  | ArrayType Expr
  | FuncTypeExpr FuncType
  | InterfaceTypeExpr InterfaceType
  | OtherExpr
and Field = Field (Names: "string list") (Type: Expr)
and FuncType = FuncType (Params: "Field list option") (Results: "Field list option")
and InterfaceType = InterfaceType "Field list"

datatype TypeSpec = TypeSpec string Expr

text \<open>A run-time panic of the Go program, as a value.\<close>

datatype panic = NilPointerDereference | TypeAssertionFailed | IndexOutOfRange

section \<open>The service model\<close>

record Method =
  Name :: string
  RequestType :: string
  ResponseType :: string

record ServiceData =
  PackageName :: string
  ServiceName :: string
  Methods :: "Method list"

section \<open>Type names\<close>

fun extractTypeName :: "Expr \<Rightarrow> string" where
  "extractTypeName (Ident name) = name"
| "extractTypeName (StarExpr x) = ''*'' @ extractTypeName x"
| "extractTypeName _ = ''unknown''"

text \<open>\<open>strings.HasPrefix\<close> and \<open>strings.TrimPrefix\<close> of the Go library.\<close>

definition HasPrefix :: "string \<Rightarrow> string \<Rightarrow> bool" where
  "HasPrefix s pre = (take (length pre) s = pre)"

definition TrimPrefix :: "string \<Rightarrow> string \<Rightarrow> string" where
  "TrimPrefix s pre = (if HasPrefix s pre then drop (length pre) s else s)"

section \<open>Signature validation\<close>

text \<open>
  \<open>validateMethodSignature\<close>, check by check in the order of the source. The file
  set, the file name, the service name and the method name are used for the verbose
  diagnostics only, which have no influence on the result, so the model takes the
  function type alone.

  Two places of the source can panic. For a \<open>nil\<close> function type the first branch
  evaluates \<open>funcType.Pos()\<close>, which reads a field of the \<open>nil\<close> receiver. The
  qualifier of the first parameter's selector is converted by the unchecked assertion
  \<open>ctxSelector.X.(*ast.Ident)\<close>, which panics when the qualifier is not an
  identifier; every other assertion of the function is of the checked form.
\<close>

definition validateMethodSignature :: "FuncType option \<Rightarrow> panic + bool" where
  "validateMethodSignature funcType =
    (case funcType of
       None \<Rightarrow> Inl NilPointerDereference
     | Some ft \<Rightarrow>
        (case Params ft of
           None \<Rightarrow> Inr False
         | Some params \<Rightarrow>
            if length params \<noteq> 2 then Inr False
            else (case Type (params ! 0) of
               SelectorExpr x sel \<Rightarrow>
                 (case x of
                    Ident pkg \<Rightarrow>
                      if pkg @ ''.'' @ sel \<noteq> ''context.Context'' then Inr False
                      else (case Type (params ! 1) of
                         Ident _ \<Rightarrow>
                           (case Results ft of
                              None \<Rightarrow> Inr False
                            | Some results \<Rightarrow>
                               if length results \<noteq> 2 then Inr False
                               else (case Type (results ! 0) of
                                  StarExpr _ \<Rightarrow>
                                    (case Type (results ! 1) of
                                       Ident errName \<Rightarrow>
                                         if errName \<noteq> ''error'' then Inr False else Inr True
                                     | _ \<Rightarrow> Inr False)
                                | _ \<Rightarrow> Inr False))
                       | _ \<Rightarrow> Inr False)
                  | _ \<Rightarrow> Inl TypeAssertionFailed)
             | _ \<Rightarrow> Inr False)))"

section \<open>Method extraction\<close>

text \<open>
  The loop of \<open>extractMethods\<close> over the fields of the interface body, with the
  slice \<open>methods\<close> as accumulator. \<open>method.Names[0]\<close> is evaluated for every field
  whose type is a function type, before the validator is called: on a field without
  a name the index is out of range. After a successful validation the source indexes
  \<open>Params.List[1]\<close> and \<open>Results.List[0]\<close>; the model writes out the panics these
  accesses would raise.
\<close>

fun extractMethods_loop :: "Field list \<Rightarrow> Method list \<Rightarrow> panic + Method list" where
  "extractMethods_loop [] methods = Inr methods"
| "extractMethods_loop (method # rest) methods =
    (case Type method of
       FuncTypeExpr funcType \<Rightarrow>
         (case Names method of
            [] \<Rightarrow> Inl IndexOutOfRange
          | methodName # _ \<Rightarrow>
             (case validateMethodSignature (Some funcType) of
                Inl p \<Rightarrow> Inl p
              | Inr False \<Rightarrow> extractMethods_loop rest methods
              | Inr True \<Rightarrow>
                 (case (Params funcType, Results funcType) of
                    (Some params, Some results) \<Rightarrow>
                      if length params \<le> 1 \<or> length results \<le> 0 then Inl IndexOutOfRange
                      else
                        let requestType = extractTypeName (Type (params ! 1));
                            responseType = extractTypeName (Type (results ! 0));
                            responseType = TrimPrefix responseType ''*''
                        in extractMethods_loop rest
                             (methods @ [\<lparr>Name = methodName, RequestType = requestType,
                                           ResponseType = responseType\<rparr>])
                  | _ \<Rightarrow> Inl NilPointerDereference)))
     | _ \<Rightarrow> extractMethods_loop rest methods)"

fun extractMethods :: "InterfaceType \<Rightarrow> panic + Method list" where
  "extractMethods (InterfaceType methodList) = extractMethods_loop methodList []"

text \<open>
  Whether \<open>extractMethods\<close> turns a field of the interface body into a
  \<open>Method\<close>, and the names of the fields it does, in declaration order.
\<close>

fun accepted :: "Field \<Rightarrow> bool" where
  "accepted (Field names (FuncTypeExpr ft)) = (validateMethodSignature (Some ft) = Inr True)"
| "accepted _ = False"

definition acceptedNames :: "Field list \<Rightarrow> string list" where
  "acceptedNames fs = concat (map (\<lambda>f. if accepted f then take 1 (Names f) else []) fs)"

text \<open>
  The record that the loop appends for a field: one for an accepted method
  \<open>nm(p0, pn req) (rn *x, r1)\<close>, with the identifier of the second parameter as
  request type name and the type name of \<open>x\<close> as response type name; none for any
  other field.
\<close>

fun methodOf :: "Field \<Rightarrow> Method list" where
  "methodOf (Field (nm # nms) (FuncTypeExpr (FuncType
      (Some [p0, Field pn (Ident req)]) (Some [Field rn (StarExpr x), r1])))) =
    (if validateMethodSignature (Some (FuncType
          (Some [p0, Field pn (Ident req)]) (Some [Field rn (StarExpr x), r1]))) = Inr True
     then [\<lparr>Name = nm, RequestType = req, ResponseType = extractTypeName x\<rparr>]
     else [])"
| "methodOf _ = []"

text \<open>
  A field that the loop passes over without a panic: its type is no function type, or
  it has a name and the validator returns false.
\<close>

fun skipped :: "Field \<Rightarrow> bool" where
  "skipped (Field names (FuncTypeExpr ft)) =
     (names \<noteq> [] \<and> validateMethodSignature (Some ft) = Inr False)"
| "skipped _ = True"

section \<open>The required shape, as the specification words it\<close>

fun isIdent :: "Expr \<Rightarrow> bool" where
  "isIdent (Ident _) = True"
| "isIdent _ = False"

fun isStarExpr :: "Expr \<Rightarrow> bool" where
  "isStarExpr (StarExpr _) = True"
| "isStarExpr _ = False"



text \<open>A named type: a plain identifier or a package-qualified one.\<close>

fun isNamedType :: "Expr \<Rightarrow> bool" where
  "isNamedType (Ident _) = True"
| "isNamedType (SelectorExpr (Ident _) _) = True"
| "isNamedType _ = False"

fun isPointerToNamedType :: "Expr \<Rightarrow> bool" where
  "isPointerToNamedType (StarExpr x) = isNamedType x"
| "isPointerToNamedType _ = False"

text \<open>
  The types of the parameters (or results) a field list declares, one per declared
  name: \<open>a, b T\<close> declares two parameters of type \<open>T\<close>, an unnamed field one.
\<close>

fun declaredTypes :: "Field list option \<Rightarrow> Expr list" where
  "declaredTypes None = []"
| "declaredTypes (Some fs) =
     concat (map (\<lambda>f. replicate (max 1 (length (Names f))) (Type f)) fs)"

text \<open>
  The six conditions of section 4.1 of the specification: two parameters, the first
  \<open>context.Context\<close>, the second a plain named type; two results, the first a pointer
  to a named type, the second \<open>error\<close>.
\<close>

definition spec_shape :: "FuncType \<Rightarrow> bool" where
  "spec_shape ft =
    (let ps = declaredTypes (Params ft); rs = declaredTypes (Results ft)
     in length ps = 2 \<and> ps ! 0 = SelectorExpr (Ident ''context'') ''Context'' \<and>
        isIdent (ps ! 1) \<and>
        length rs = 2 \<and> isPointerToNamedType (rs ! 0) \<and> rs ! 1 = Ident ''error'')"

text \<open>The same six conditions with the fifth weakened to: the first result is a pointer.\<close>

definition pointer_shape :: "FuncType \<Rightarrow> bool" where
  "pointer_shape ft =
    (let ps = declaredTypes (Params ft); rs = declaredTypes (Results ft)
     in length ps = 2 \<and> ps ! 0 = SelectorExpr (Ident ''context'') ''Context'' \<and>
        isIdent (ps ! 1) \<and>
        length rs = 2 \<and> isStarExpr (rs ! 0) \<and> rs ! 1 = Ident ''error'')"

text \<open>No field of the signature declares several names at once.\<close>

fun ungroupedList :: "Field list option \<Rightarrow> bool" where
  "ungroupedList None = True"
| "ungroupedList (Some fs) = list_all (\<lambda>f. length (Names f) \<le> 1) fs"

definition ungrouped :: "FuncType \<Rightarrow> bool" where
  "ungrouped ft = (ungroupedList (Params ft) \<and> ungroupedList (Results ft))"


section \<open>Collecting the services\<close>

text \<open>
  The callback that \<open>main\<close> hands to \<open>ast.Inspect\<close>, on one type declaration of a
  package: an interface type gives one more \<open>ServiceData\<close>, appended to
  \<open>serviceDatas\<close>; any other type leaves the slice as it is. A panic of
  \<open>extractMethods\<close> ends the program.
\<close>

fun inspectTypeSpec :: "string \<Rightarrow> TypeSpec \<Rightarrow> ServiceData list \<Rightarrow> panic + ServiceData list" where
  "inspectTypeSpec pkgName (TypeSpec serviceName (InterfaceTypeExpr interfaceType)) serviceDatas =
    (case extractMethods interfaceType of
       Inl p \<Rightarrow> Inl p
     | Inr methods \<Rightarrow>
        Inr (serviceDatas @
          [\<lparr>PackageName = pkgName, ServiceName = serviceName, Methods = methods\<rparr>]))"
| "inspectTypeSpec pkgName (TypeSpec serviceName _) serviceDatas = Inr serviceDatas"

section \<open>The client template\<close>

text \<open>
  The text that executing \<open>clientTemplate\<close> on a \<open>ServiceData\<close> writes, line by
  line. The template has no trim markers, so every line break of the template text
  is written, and each \<open>range .Methods\<close> writes its body once per method, in the
  order of the slice, and nothing for an empty slice. A \<open>range\<close> body starts at the
  line break after the \<open>range\<close> action: each round begins with an empty line. The
  line break after \<open>end\<close> ends one more empty line. The values are strings and are
  written unchanged. \<open>unlines\<close> ends every line with a line feed.
\<close>

definition unlines :: "string list \<Rightarrow> string" where
  "unlines ls = concat (map (\<lambda>l. l @ [CHR 0x0A]) ls)"

definition registerLines :: "Method \<Rightarrow> string list" where
  \<open>registerLines m =
    [ [],
      ''   gob.Register('' @ ResponseType m @ ''{})'',
      ''   gob.Register('' @ RequestType m @ ''{})'' ]\<close>

definition methodLines :: "ServiceData \<Rightarrow> Method \<Rightarrow> string list" where
  \<open>methodLines sd m =
    [ [],
      ''func (c *'' @ ServiceName sd @ ''Client) '' @ Name m @ ''(request '' @ RequestType m
        @ '') (*'' @ ResponseType m @ '', error) {'',
      ''   var response '' @ ResponseType m,
      ''   err := c.client.Call("'' @ ServiceName sd @ ''.'' @ Name m @ ''", request, &response)'',
      ''   if err != nil {'',
      ''       return nil, fmt.Errorf("'' @ PackageName sd @ ''.'' @ ServiceName sd @ ''Client.''
        @ Name m @ '' Call error: %w", err)'',
      ''   }'',
      [],
      ''   return &response, nil'',
      ''}'' ]\<close>

definition clientTemplateLines :: "ServiceData \<Rightarrow> string list" where
  \<open>clientTemplateLines sd =
    [ [],
      ''package '' @ PackageName sd,
      [],
      ''func init() {'' ]
    @ concat (map registerLines (Methods sd)) @
    [ [],
      ''}'',
      [],
      ''type '' @ ServiceName sd @ ''Client struct {'',
      ''   client *rpc.Client'',
      ''}'',
      [],
      ''func New'' @ ServiceName sd @ ''Client(address string) (*'' @ ServiceName sd
        @ ''Client, error) {'',
      ''   client, err := rpc.Dial("tcp", address)'',
      ''   if err != nil {'',
      ''       return nil, fmt.Errorf("'' @ PackageName sd @ ''.New'' @ ServiceName sd
        @ ''Client rpc.Dial error: %w", err)'',
      ''   }'',
      [],
      ''   return &'' @ ServiceName sd @ ''Client{client: client}, nil'',
      ''}'',
      [] ]
    @ concat (map (methodLines sd) (Methods sd)) @
    [ [],
      [],
      ''func (c *'' @ ServiceName sd @ ''Client) Close() error {'',
      ''   return c.client.Close()'',
      ''}'' ]\<close>

definition executeClientTemplate :: "ServiceData \<Rightarrow> string" where
  "executeClientTemplate sd = unlines (clientTemplateLines sd)"










section \<open>Generating the files\<close>

text \<open>
  What \<open>generateClientCode\<close> takes from outside the repository is a parameter of
  the model: the output directory (the flag \<open>-output\<close>), the import normalisation
  \<open>imports.Process\<close> (a text or an error message), \<open>path.Join\<close>, the lower-casing
  of a name with a byte outside ASCII, and whether creating or writing a file fails
  (a failed write comes with the number of bytes it did write). The file system is
  a map from paths to contents.
\<close>

record Env =
  outputDir :: string
  importsProcess :: "string \<Rightarrow> string + string"
  pathJoin :: "string \<Rightarrow> string \<Rightarrow> string"
  unicodeToLower :: "string \<Rightarrow> string"
  createError :: "string \<Rightarrow> string option"
  writeError :: "string \<Rightarrow> string \<Rightarrow> (string \<times> nat) option"

type_synonym FS = "string \<rightharpoonup> string"

text \<open>
  \<open>strings.ToLower\<close>: on a string of ASCII bytes only, the letters \<open>A\<close> to \<open>Z\<close>
  become \<open>a\<close> to \<open>z\<close> byte by byte; any other string goes through the Unicode case
  mapping, which is the parameter.
\<close>

definition isASCII :: "string \<Rightarrow> bool" where
  "isASCII s = list_all (\<lambda>c. (of_char c :: nat) < 128) s"

definition lowerASCII :: "char \<Rightarrow> char" where
  "lowerASCII c =
    (if (65::nat) \<le> of_char c \<and> (of_char c :: nat) \<le> 90 then char_of (of_char c + (32::nat)) else c)"

definition ToLower :: "Env \<Rightarrow> string \<Rightarrow> string" where
  "ToLower env s = (if isASCII s then map lowerASCII s else unicodeToLower env s)"

text \<open>
  \<open>generateClientCode\<close>: the template (a function from the data to the text or an
  error), then the import normalisation, then the file. It returns the error
  message (\<open>None\<close> for \<open>nil\<close>) and the file system it leaves.
\<close>

definition generateClientCode ::
  "Env \<Rightarrow> (ServiceData \<Rightarrow> string + string) \<Rightarrow> ServiceData \<Rightarrow> FS \<Rightarrow> string option \<times> FS" where
  "generateClientCode env temp serviceData fs =
    (case temp serviceData of
       Inl err \<Rightarrow> (Some (''error executing template: '' @ err), fs)
     | Inr buf \<Rightarrow>
        (case importsProcess env buf of
           Inl err \<Rightarrow> (Some (''imports error: '' @ err), fs)
         | Inr formatted \<Rightarrow>
            let fileName = ToLower env (ServiceName serviceData) @ ''_client_gen.go'';
                file = pathJoin env (outputDir env) fileName
            in (case createError env file of
                  Some err \<Rightarrow> (Some (''error creating file '' @ fileName @ '': '' @ err), fs)
                | None \<Rightarrow>
                   (case writeError env file formatted of
                      Some (err, n) \<Rightarrow>
                        (Some (''error writing to file '' @ fileName @ '': '' @ err),
                         fs(file \<mapsto> take n formatted))
                    | None \<Rightarrow> (None, fs(file \<mapsto> formatted))))))"

text \<open>
  The last loop of \<open>main\<close>: the services in order, and \<open>os.Exit(1)\<close> at the first
  error. The result is the exit code and the file system.
\<close>

fun generateAll ::
  "Env \<Rightarrow> (ServiceData \<Rightarrow> string + string) \<Rightarrow> ServiceData list \<Rightarrow> FS \<Rightarrow> nat \<times> FS" where
  "generateAll env temp [] fs = (0, fs)"
| "generateAll env temp (serviceData # rest) fs =
    (case generateClientCode env temp serviceData fs of
       (Some err, fs') \<Rightarrow> (1, fs')
     | (None, fs') \<Rightarrow> generateAll env temp rest fs')"

text \<open>
  The template that \<open>main\<close> parses from \<open>clientTemplate\<close>; executing it into a
  buffer on a \<open>ServiceData\<close> has no error.
\<close>

definition parsedClientTemplate :: "ServiceData \<Rightarrow> string + string" where
  "parsedClientTemplate sd = Inr (executeClientTemplate sd)"

text \<open>Rendering fails: the template or the import normalisation gives an error.\<close>

definition renderFails :: "Env \<Rightarrow> (ServiceData \<Rightarrow> string + string) \<Rightarrow> ServiceData \<Rightarrow> bool" where
  "renderFails env temp sd =
    (case temp sd of Inl err \<Rightarrow> True | Inr buf \<Rightarrow> isl (importsProcess env buf))"

section \<open>Facts about validation and extraction\<close>

lemma context_name_split:
  "a @ CHR ''.'' # b = ''context.Context'' \<longleftrightarrow> a = ''context'' \<and> b = ''Context''"
  by (auto simp: append_eq_Cons_conv)

lemma length_two: "length xs = 2 \<longleftrightarrow> (\<exists>a b. xs = [a, b])"
  by (cases xs; cases "tl xs"; auto)

lemma isIdent_iff: "isIdent e \<longleftrightarrow> (\<exists>n. e = Ident n)"
  by (cases e) auto

lemma isStarExpr_iff: "isStarExpr e \<longleftrightarrow> (\<exists>x. e = StarExpr x)"
  by (cases e) auto

text \<open>What the validator accepts, read off its sequence of checks.\<close>

lemma validate_True_iff:
  "validateMethodSignature (Some ft) = Inr True \<longleftrightarrow>
     (\<exists>p0 p1 r0 r1 n x.
        Params ft = Some [p0, p1] \<and> Type p0 = SelectorExpr (Ident ''context'') ''Context'' \<and>
        Type p1 = Ident n \<and> Results ft = Some [r0, r1] \<and> Type r0 = StarExpr x \<and>
        Type r1 = Ident ''error'')"
  (is "?L = ?R")
proof
  assume ?L
  then show ?R
    unfolding validateMethodSignature_def
    by (auto simp: length_two context_name_split split: option.splits if_splits Expr.splits)
next
  assume ?R
  then show ?L
    unfolding validateMethodSignature_def
    by (auto simp: context_name_split)
qed


lemma declaredTypes_ungrouped:
  assumes "ungroupedList fl"
  shows "declaredTypes fl = (case fl of None \<Rightarrow> [] | Some fs \<Rightarrow> map Type fs)"
proof (cases fl)
  case None
  then show ?thesis by simp
next
  case (Some fs)
  with assms have "list_all (\<lambda>f. length (Names f) \<le> 1) fs" by simp
  then have "concat (map (\<lambda>f. replicate (max 1 (length (Names f))) (Type f)) fs) = map Type fs"
    by (induction fs) (auto simp: max_def)
  with Some show ?thesis by simp
qed

lemma declaredTypes_length: "length fs \<le> length (declaredTypes (Some fs))"
  by (induction fs) (auto simp: max_def)

lemma replicate_pair_same: "replicate k t = [a, b] \<Longrightarrow> a = b"
  by (metis in_set_replicate list.set_intros(1) list.set_intros(2))

lemma replicate_append_pair:
  "replicate (Suc i) s @ replicate (Suc j) t = [a, b] \<Longrightarrow> s = a \<and> t = b"
  by (cases i) auto

text \<open>Two declared parameters of different types come from two fields of one name each.\<close>

lemma declaredTypes_two_distinct:
  assumes "declaredTypes fl = [a, b]" "a \<noteq> b"
  shows "\<exists>f g. fl = Some [f, g] \<and> Type f = a \<and> Type g = b"
proof -
  from assms(1) obtain fs where fl: "fl = Some fs" by (cases fl) auto
  have "length fs \<le> 2" using declaredTypes_length [of fs] assms(1) fl by simp
  then consider "fs = []" | f where "fs = [f]" | f g where "fs = [f, g]"
    by (cases fs; cases "tl fs"; cases "tl (tl fs)") auto
  then show ?thesis
  proof cases
    case 1
    with assms fl show ?thesis by simp
  next
    case 2
    with assms fl show ?thesis by (auto dest: replicate_pair_same)
  next
    case 3
    have k: "s = a \<and> t = b"
      if h: "replicate (max 1 k) s @ replicate (max 1 m) t = [a, b]" for k m and s t :: Expr
    proof -
      obtain k' m' where "max 1 k = Suc k'" "max 1 m = Suc m'"
        by (cases k; cases m) (auto simp: max_def)
      with h have "replicate (Suc k') s @ replicate (Suc m') t = [a, b]" by metis
      then show ?thesis by (rule replicate_append_pair)
    qed
    with assms fl 3 show ?thesis by auto
  qed
qed

lemma pointer_shape_ungrouped:
  assumes "ungrouped ft"
  shows "validateMethodSignature (Some ft) = Inr True \<longleftrightarrow> pointer_shape ft"
  using assms
  by (cases ft)
     (auto simp: validate_True_iff pointer_shape_def ungrouped_def declaredTypes_ungrouped
        Let_def isIdent_iff isStarExpr_iff length_two split: option.splits)

lemma pointer_shape_accepts:
  assumes "pointer_shape ft"
  shows "validateMethodSignature (Some ft) = Inr True"
proof -
  define ps where "ps = declaredTypes (Params ft)"
  define rs where "rs = declaredTypes (Results ft)"
  from assms obtain n where ps: "ps = [SelectorExpr (Ident ''context'') ''Context'', Ident n]"
    unfolding pointer_shape_def ps_def [symmetric] rs_def [symmetric]
    by (auto simp: Let_def length_two isIdent_iff)
  from assms obtain x where rs: "rs = [StarExpr x, Ident ''error'']"
    unfolding pointer_shape_def ps_def [symmetric] rs_def [symmetric]
    by (auto simp: Let_def length_two isStarExpr_iff)
  from ps obtain p0 p1 where "Params ft = Some [p0, p1]"
      "Type p0 = SelectorExpr (Ident ''context'') ''Context''" "Type p1 = Ident n"
    using declaredTypes_two_distinct [of "Params ft"] unfolding ps_def by blast
  moreover from rs obtain r0 r1 where "Results ft = Some [r0, r1]"
      "Type r0 = StarExpr x" "Type r1 = Ident ''error''"
    using declaredTypes_two_distinct [of "Results ft"] unfolding rs_def by blast
  ultimately show ?thesis by (auto simp: validate_True_iff)
qed

text \<open>One round of the extraction loop on an accepted method.\<close>

lemma loop_accepted:
  assumes "validateMethodSignature (Some ft) = Inr True"
  shows "\<exists>p0 pn n rn x r1.
     Params ft = Some [p0, Field pn (Ident n)] \<and> Results ft = Some [Field rn (StarExpr x), r1] \<and>
     (\<forall>nm nms rest acc.
        extractMethods_loop (Field (nm # nms) (FuncTypeExpr ft) # rest) acc =
        extractMethods_loop rest
          (acc @ [\<lparr>Name = nm, RequestType = n, ResponseType = extractTypeName x\<rparr>]))"
proof -
  from assms obtain p0 p1 r0 r1 n x where
    h: "Params ft = Some [p0, p1]" "Type p1 = Ident n" "Results ft = Some [r0, r1]"
       "Type r0 = StarExpr x"
    by (auto simp: validate_True_iff)
  obtain pn where p1: "p1 = Field pn (Ident n)" using h(2) by (cases p1) auto
  obtain rn where r0: "r0 = Field rn (StarExpr x)" using h(4) by (cases r0) auto
  show ?thesis
    using assms h p1 r0 by (auto simp: TrimPrefix_def HasPrefix_def)
qed

text \<open>The names of the extracted methods are the names of the accepted fields, in order.\<close>

lemma loop_names:
  "extractMethods_loop fs acc = Inr ms \<Longrightarrow> map Name ms = map Name acc @ acceptedNames fs"
proof (induction fs arbitrary: acc)
  case Nil
  then show ?case by (simp add: acceptedNames_def)
next
  case (Cons f fs)
  obtain names t where f: "f = Field names t" by (cases f)
  show ?case
  proof (cases "accepted f")
    case True
    then obtain ft where t: "t = FuncTypeExpr ft"
      and v: "validateMethodSignature (Some ft) = Inr True"
      using f by (cases t) auto
    from loop_accepted [OF v] obtain n x where
      st: "\<And>nm nms rest acc.
        extractMethods_loop (Field (nm # nms) (FuncTypeExpr ft) # rest) acc =
        extractMethods_loop rest
          (acc @ [\<lparr>Name = nm, RequestType = n, ResponseType = extractTypeName x\<rparr>])"
      by blast
    show ?thesis
    proof (cases names)
      case Nil
      with Cons.prems f t show ?thesis by simp
    next
      case (Cons nm nms)
      with Cons.prems f t st
      have "extractMethods_loop fs
              (acc @ [\<lparr>Name = nm, RequestType = n, ResponseType = extractTypeName x\<rparr>]) = Inr ms"
        by simp
      from Cons.IH [OF this] True f Cons show ?thesis
        by (simp add: acceptedNames_def)
    qed
  next
    case False
    have "extractMethods_loop fs acc = Inr ms"
    proof (cases t)
      case (FuncTypeExpr ft)
      with False f have nv: "validateMethodSignature (Some ft) \<noteq> Inr True" by simp
      with Cons.prems f FuncTypeExpr show ?thesis
        by (cases names; cases "validateMethodSignature (Some ft)") (auto split: bool.splits)
    qed (use Cons.prems f in auto)
    from Cons.IH [OF this] False show ?thesis
      by (simp add: acceptedNames_def)
  qed
qed

text \<open>The methods of the extracted service, field by field.\<close>

lemma methodOf_not_accepted: "\<not> accepted f \<Longrightarrow> methodOf f = []"
  by (induction f rule: methodOf.induct) auto

lemma methodOf_accepted:
  assumes "validateMethodSignature (Some ft) = Inr True"
  shows "\<exists>p0 pn req rn x r1.
     ft = FuncType (Some [p0, Field pn (Ident req)]) (Some [Field rn (StarExpr x), r1]) \<and>
     (\<forall>nm nms. methodOf (Field (nm # nms) (FuncTypeExpr ft)) =
        [\<lparr>Name = nm, RequestType = req, ResponseType = extractTypeName x\<rparr>]) \<and>
     (\<forall>nm nms rest acc.
        extractMethods_loop (Field (nm # nms) (FuncTypeExpr ft) # rest) acc =
        extractMethods_loop rest
          (acc @ [\<lparr>Name = nm, RequestType = req, ResponseType = extractTypeName x\<rparr>]))"
proof -
  from loop_accepted [OF assms] obtain p0 pn req rn x r1 where
    h: "Params ft = Some [p0, Field pn (Ident req)]"
       "Results ft = Some [Field rn (StarExpr x), r1]"
    and st: "\<forall>nm nms rest acc.
        extractMethods_loop (Field (nm # nms) (FuncTypeExpr ft) # rest) acc =
        extractMethods_loop rest
          (acc @ [\<lparr>Name = nm, RequestType = req, ResponseType = extractTypeName x\<rparr>])"
    by blast
  from h have ft: "ft = FuncType (Some [p0, Field pn (Ident req)]) (Some [Field rn (StarExpr x), r1])"
    by (cases ft) simp
  with assms have "\<forall>nm nms. methodOf (Field (nm # nms) (FuncTypeExpr ft)) =
        [\<lparr>Name = nm, RequestType = req, ResponseType = extractTypeName x\<rparr>]"
    by simp
  with ft st show ?thesis by blast
qed

lemma loop_methodOf:
  "extractMethods_loop fs acc = Inr ms \<Longrightarrow> ms = acc @ concat (map methodOf fs)"
proof (induction fs arbitrary: acc)
  case Nil
  then show ?case by simp
next
  case (Cons f fs)
  obtain names t where f: "f = Field names t" by (cases f)
  show ?case
  proof (cases "accepted f")
    case True
    then obtain ft where t: "t = FuncTypeExpr ft"
      and v: "validateMethodSignature (Some ft) = Inr True"
      using f by (cases t) auto
    from methodOf_accepted [OF v] obtain req x where
      mo: "\<And>nm nms. methodOf (Field (nm # nms) (FuncTypeExpr ft)) =
        [\<lparr>Name = nm, RequestType = req, ResponseType = extractTypeName x\<rparr>]"
      and st: "\<And>nm nms rest acc.
        extractMethods_loop (Field (nm # nms) (FuncTypeExpr ft) # rest) acc =
        extractMethods_loop rest
          (acc @ [\<lparr>Name = nm, RequestType = req, ResponseType = extractTypeName x\<rparr>])"
      by blast
    show ?thesis
    proof (cases names)
      case Nil
      with Cons.prems f t show ?thesis by simp
    next
      case (Cons nm nms)
      with Cons.prems f t st
      have "extractMethods_loop fs
              (acc @ [\<lparr>Name = nm, RequestType = req, ResponseType = extractTypeName x\<rparr>]) = Inr ms"
        by simp
      from Cons.IH [OF this] mo [of nm nms] f t Cons show ?thesis
        by simp
    qed
  next
    case False
    have "extractMethods_loop fs acc = Inr ms"
    proof (cases t)
      case (FuncTypeExpr ft)
      with False f have nv: "validateMethodSignature (Some ft) \<noteq> Inr True" by simp
      with Cons.prems f FuncTypeExpr show ?thesis
        by (cases names; cases "validateMethodSignature (Some ft)") (auto split: bool.splits)
    qed (use Cons.prems f in auto)
    from Cons.IH [OF this] methodOf_not_accepted [OF False] show ?thesis
      by simp
  qed
qed


text \<open>
  The validator counts the fields of a list, so a signature that groups two names in
  its second field, \<open>M(ctx context.Context, a, b Req) (*Resp, error)\<close> with three
  parameters, is accepted.
\<close>

lemma validate_grouped_names_example:
  "validateMethodSignature (Some (FuncType
      (Some [Field [''ctx''] (SelectorExpr (Ident ''context'') ''Context''),
             Field [''a'', ''b''] (Ident ''Req'')])
      (Some [Field [] (StarExpr (Ident ''Resp'')), Field [] (Ident ''error'')]))) = Inr True
   \<and> length (declaredTypes (Some [Field [''ctx''] (SelectorExpr (Ident ''context'') ''Context''),
             Field [''a'', ''b''] (Ident ''Req'')])) = 3"
  by (simp add: validateMethodSignature_def)

lemma loop_skipped: "list_all skipped fs \<Longrightarrow> extractMethods_loop fs acc = Inr acc"
proof (induction fs)
  case Nil
  then show ?case by simp
next
  case (Cons f fs)
  obtain names t where f: "f = Field names t" by (cases f)
  from Cons show ?case
    unfolding f by (cases t; cases names) auto
qed

text \<open>
  An interface none of whose members is accepted, and on which the extraction does
  not panic, gives a service without methods, and the template's text for it has the
  client type, the constructor and \<open>Close\<close> only.
\<close>

lemma no_accepted_method_service:
  assumes "list_all skipped fs"
  shows "inspectTypeSpec pkg (TypeSpec name (InterfaceTypeExpr (InterfaceType fs))) sds =
           Inr (sds @ [\<lparr>PackageName = pkg, ServiceName = name, Methods = []\<rparr>])"
  using loop_skipped [OF assms, of "[]"] by simp

lemma clientTemplateLines_no_methods:
  \<open>clientTemplateLines \<lparr>PackageName = p, ServiceName = s, Methods = []\<rparr> =
    [ [],
      ''package '' @ p,
      [],
      ''func init() {'',
      [],
      ''}'',
      [],
      ''type '' @ s @ ''Client struct {'',
      ''   client *rpc.Client'',
      ''}'',
      [],
      ''func New'' @ s @ ''Client(address string) (*'' @ s @ ''Client, error) {'',
      ''   client, err := rpc.Dial("tcp", address)'',
      ''   if err != nil {'',
      ''       return nil, fmt.Errorf("'' @ p @ ''.New'' @ s @ ''Client rpc.Dial error: %w", err)'',
      ''   }'',
      [],
      ''   return &'' @ s @ ''Client{client: client}, nil'',
      ''}'',
      [],
      [],
      [],
      ''func (c *'' @ s @ ''Client) Close() error {'',
      ''   return c.client.Close()'',
      ''}'' ]\<close>
  by (simp add: clientTemplateLines_def)

section \<open>Facts about the rendered text\<close>

















lemma generateAll_append:
  "generateAll env temp pre fs = (0, fs1) \<Longrightarrow>
   generateAll env temp (pre @ rest) fs = generateAll env temp rest fs1"
proof (induction pre arbitrary: fs)
  case Nil
  then show ?case by simp
next
  case (Cons sd pre)
  then show ?case
    by (cases "generateClientCode env temp sd fs") (auto split: option.splits)
qed

lemma renderFails_generateClientCode:
  "renderFails env temp sd \<Longrightarrow> \<exists>err. generateClientCode env temp sd fs = (Some err, fs)"
  by (auto simp: renderFails_def generateClientCode_def isl_def split: sum.splits)

lemma generateClientCode_success:
  "generateClientCode env temp sd fs = (None, fs') \<longleftrightarrow>
     (\<exists>buf formatted.
        temp sd = Inr buf \<and> importsProcess env buf = Inr formatted \<and>
        createError env (pathJoin env (outputDir env)
          (ToLower env (ServiceName sd) @ ''_client_gen.go'')) = None \<and>
        writeError env (pathJoin env (outputDir env)
          (ToLower env (ServiceName sd) @ ''_client_gen.go'')) formatted = None \<and>
        fs' = fs(pathJoin env (outputDir env)
          (ToLower env (ServiceName sd) @ ''_client_gen.go'') \<mapsto> formatted))"
  by (auto simp: generateClientCode_def Let_def split: sum.splits option.splits)

lemma generateClientCode_frame:
  "q \<noteq> pathJoin env (outputDir env) (ToLower env (ServiceName sd) @ ''_client_gen.go'') \<Longrightarrow>
   snd (generateClientCode env temp sd fs) q = fs q"
  by (auto simp: generateClientCode_def Let_def split: sum.splits option.splits)

lemma lower_UserService: "map lowerASCII ''UserService'' = ''userservice''"
  by code_simp

lemma ascii_UserService: "isASCII ''UserService''"
  by code_simp

lemma ToLower_UserService: "ToLower env ''UserService'' = ''userservice''"
  unfolding ToLower_def by (simp only: lower_UserService ascii_UserService if_True)

lemma ToLower_Echo: "ToLower env ''Echo'' = ''echo''"
proof -
  have "map lowerASCII ''Echo'' = ''echo''" "isASCII ''Echo''" by code_simp+
  then show ?thesis unfolding ToLower_def by (simp only: if_True)
qed

section \<open>The claims\<close>

text \<open>
  C1, as amended. The validator returns true for every method whose signature has
  exactly two parameters, the first of type \<open>context.Context\<close> and the second of a
  plain named type, and exactly two results, the first of a pointer type (to any
  type) and the second \<open>error\<close>. For a signature none of whose fields groups several
  names, it returns true for no other method.
\<close>

theorem validate_true_iff_pointer_shape:
  "(pointer_shape ft \<longrightarrow> validateMethodSignature (Some ft) = Inr True) \<and>
   (ungrouped ft \<longrightarrow> (validateMethodSignature (Some ft) = Inr True) = pointer_shape ft)"
  using pointer_shape_accepts pointer_shape_ungrouped by blast

theorem validate_true_iff_pointer_shape_witness:
  "ungrouped (FuncType
      (Some [Field [''ctx''] (SelectorExpr (Ident ''context'') ''Context''),
             Field [''req''] (Ident ''Req'')])
      (Some [Field [] (StarExpr (ArrayType (Ident ''Resp''))), Field [] (Ident ''error'')]))
   \<and> pointer_shape (FuncType
      (Some [Field [''ctx''] (SelectorExpr (Ident ''context'') ''Context''),
             Field [''req''] (Ident ''Req'')])
      (Some [Field [] (StarExpr (ArrayType (Ident ''Resp''))), Field [] (Ident ''error'')]))
   \<and> validateMethodSignature (Some (FuncType
      (Some [Field [''ctx''] (SelectorExpr (Ident ''context'') ''Context''),
             Field [''req''] (Ident ''Req'')])
      (Some [Field [] (StarExpr (ArrayType (Ident ''Resp''))), Field [] (Ident ''error'')])))
     = Inr True"
  using validate_true_iff_pointer_shape [of "FuncType
      (Some [Field [''ctx''] (SelectorExpr (Ident ''context'') ''Context''),
             Field [''req''] (Ident ''Req'')])
      (Some [Field [] (StarExpr (ArrayType (Ident ''Resp''))), Field [] (Ident ''error'')])"]
  by (simp add: ungrouped_def pointer_shape_def)

text \<open>
  C1 as stated fails: \<open>M(ctx context.Context, req Req) (*[]Resp, error)\<close> is accepted,
  and its first result is a pointer to a slice type, not to a named type.
\<close>

theorem validate_pointer_to_slice_counterexample:
  "validateMethodSignature (Some (FuncType
      (Some [Field [''ctx''] (SelectorExpr (Ident ''context'') ''Context''),
             Field [''req''] (Ident ''Req'')])
      (Some [Field [] (StarExpr (ArrayType (Ident ''Resp''))), Field [] (Ident ''error'')])))
     = Inr True
   \<and> \<not> spec_shape (FuncType
      (Some [Field [''ctx''] (SelectorExpr (Ident ''context'') ''Context''),
             Field [''req''] (Ident ''Req'')])
      (Some [Field [] (StarExpr (ArrayType (Ident ''Resp''))), Field [] (Ident ''error'')]))"
  by (simp add: validateMethodSignature_def spec_shape_def)









text \<open>
  C5 fails on the code: for \<open>type Handler interface { func(Req) }\<close>, an interface
  whose only element is a function type without a name, no method passes validation,
  and no service is produced: \<open>method.Names[0]\<close> panics.
\<close>

theorem inspect_unnamed_function_element_panics:
  "inspectTypeSpec ''api'' (TypeSpec ''Handler'' (InterfaceTypeExpr (InterfaceType
      [Field [] (FuncTypeExpr (FuncType (Some [Field [] (Ident ''Req'')]) None))]))) []
   = Inl IndexOutOfRange"
  by simp

text \<open>
  C6, as amended. The names of the methods of an extracted service are the names of
  the accepted method declarations, in declaration order; so they are unique exactly
  when the accepted declarations have different names. The extraction neither
  checks nor removes a repeated name.
\<close>

theorem method_names_are_accepted_names:
  assumes "extractMethods (InterfaceType fs) = Inr ms"
  shows "map Name ms = acceptedNames fs \<and>
         distinct (map Name ms) = distinct (acceptedNames fs)"
  using loop_names [of fs "[]" ms] assms by simp

theorem method_names_are_accepted_names_witness:
  "extractMethods (InterfaceType
     [Field [''Say''] (FuncTypeExpr (FuncType
        (Some [Field [''ctx''] (SelectorExpr (Ident ''context'') ''Context''),
               Field [''req''] (Ident ''Msg'')])
        (Some [Field [] (StarExpr (Ident ''Reply'')), Field [] (Ident ''error'')]))),
      Field [''Skip''] (FuncTypeExpr (FuncType
        (Some [Field [''req''] (StarExpr (Ident ''Msg''))])
        (Some [Field [] (StarExpr (Ident ''Reply''))]))),
      Field [''Ask''] (FuncTypeExpr (FuncType
        (Some [Field [''ctx''] (SelectorExpr (Ident ''context'') ''Context''),
               Field [''req''] (Ident ''Msg'')])
        (Some [Field [] (StarExpr (Ident ''Reply'')), Field [] (Ident ''error'')])))])
   = Inr [\<lparr>Name = ''Say'', RequestType = ''Msg'', ResponseType = ''Reply''\<rparr>,
          \<lparr>Name = ''Ask'', RequestType = ''Msg'', ResponseType = ''Reply''\<rparr>]
   \<and> acceptedNames
     [Field [''Say''] (FuncTypeExpr (FuncType
        (Some [Field [''ctx''] (SelectorExpr (Ident ''context'') ''Context''),
               Field [''req''] (Ident ''Msg'')])
        (Some [Field [] (StarExpr (Ident ''Reply'')), Field [] (Ident ''error'')]))),
      Field [''Skip''] (FuncTypeExpr (FuncType
        (Some [Field [''req''] (StarExpr (Ident ''Msg''))])
        (Some [Field [] (StarExpr (Ident ''Reply''))]))),
      Field [''Ask''] (FuncTypeExpr (FuncType
        (Some [Field [''ctx''] (SelectorExpr (Ident ''context'') ''Context''),
               Field [''req''] (Ident ''Msg'')])
        (Some [Field [] (StarExpr (Ident ''Reply'')), Field [] (Ident ''error'')])))]
   = [''Say'', ''Ask'']"
proof -
  have e: "extractMethods (InterfaceType
     [Field [''Say''] (FuncTypeExpr (FuncType
        (Some [Field [''ctx''] (SelectorExpr (Ident ''context'') ''Context''),
               Field [''req''] (Ident ''Msg'')])
        (Some [Field [] (StarExpr (Ident ''Reply'')), Field [] (Ident ''error'')]))),
      Field [''Skip''] (FuncTypeExpr (FuncType
        (Some [Field [''req''] (StarExpr (Ident ''Msg''))])
        (Some [Field [] (StarExpr (Ident ''Reply''))]))),
      Field [''Ask''] (FuncTypeExpr (FuncType
        (Some [Field [''ctx''] (SelectorExpr (Ident ''context'') ''Context''),
               Field [''req''] (Ident ''Msg'')])
        (Some [Field [] (StarExpr (Ident ''Reply'')), Field [] (Ident ''error'')])))])
   = Inr [\<lparr>Name = ''Say'', RequestType = ''Msg'', ResponseType = ''Reply''\<rparr>,
          \<lparr>Name = ''Ask'', RequestType = ''Msg'', ResponseType = ''Reply''\<rparr>]"
    by (simp add: validateMethodSignature_def TrimPrefix_def HasPrefix_def)
  from method_names_are_accepted_names [OF e] e show ?thesis
    by simp
qed

text \<open>
  C6 as stated fails: an interface body that declares \<open>Say\<close> twice, which the parser
  accepts, gives a service with two methods named \<open>Say\<close>.
\<close>

theorem method_names_repeat_counterexample:
  "extractMethods (InterfaceType
     [Field [''Say''] (FuncTypeExpr (FuncType
        (Some [Field [''ctx''] (SelectorExpr (Ident ''context'') ''Context''),
               Field [''req''] (Ident ''Msg'')])
        (Some [Field [] (StarExpr (Ident ''Reply'')), Field [] (Ident ''error'')]))),
      Field [''Say''] (FuncTypeExpr (FuncType
        (Some [Field [''ctx''] (SelectorExpr (Ident ''context'') ''Context''),
               Field [''req''] (Ident ''Note'')])
        (Some [Field [] (StarExpr (Ident ''Ack'')), Field [] (Ident ''error'')])))])
   = Inr [\<lparr>Name = ''Say'', RequestType = ''Msg'', ResponseType = ''Reply''\<rparr>,
          \<lparr>Name = ''Say'', RequestType = ''Note'', ResponseType = ''Ack''\<rparr>]
   \<and> \<not> distinct (map Name
         [\<lparr>Name = ''Say'', RequestType = ''Msg'', ResponseType = ''Reply''\<rparr>,
          \<lparr>Name = ''Say'', RequestType = ''Note'', ResponseType = ''Ack''\<rparr>])"
  by (simp add: validateMethodSignature_def TrimPrefix_def HasPrefix_def)

text \<open>
  C7. When rendering a service fails (the template or the import normalisation gives
  an error) after the services before it were generated, the run ends there with exit
  code 1, and the file system is as those earlier services left it: nothing is
  written for the failing service or for any later one.
\<close>

theorem render_failure_halts:
  assumes "generateAll env temp pre fs = (0, fs1)" and "renderFails env temp sd"
  shows "generateAll env temp (pre @ sd # post) fs = (1, fs1)"
proof -
  from assms(2) obtain err where "generateClientCode env temp sd fs1 = (Some err, fs1)"
    using renderFails_generateClientCode by blast
  then have "generateAll env temp (sd # post) fs1 = (1, fs1)" by simp
  with generateAll_append [OF assms(1)] show ?thesis by simp
qed

theorem render_failure_halts_witness:
  "generateAll
     \<lparr>outputDir = ''out'', importsProcess = Inr, pathJoin = (\<lambda>d f. d @ ''/'' @ f),
      unicodeToLower = (\<lambda>s. s), createError = (\<lambda>p. None), writeError = (\<lambda>p d. None)\<rparr>
     (\<lambda>sd. if ServiceName sd = ''Broken'' then Inl ''template: error''
           else parsedClientTemplate sd)
     [\<lparr>PackageName = ''api'', ServiceName = ''Echo'', Methods = []\<rparr>]
     Map.empty
   = (0, [''out/echo_client_gen.go'' \<mapsto>
           executeClientTemplate \<lparr>PackageName = ''api'', ServiceName = ''Echo'', Methods = []\<rparr>])
   \<and> renderFails
     \<lparr>outputDir = ''out'', importsProcess = Inr, pathJoin = (\<lambda>d f. d @ ''/'' @ f),
      unicodeToLower = (\<lambda>s. s), createError = (\<lambda>p. None), writeError = (\<lambda>p d. None)\<rparr>
     (\<lambda>sd. if ServiceName sd = ''Broken'' then Inl ''template: error''
           else parsedClientTemplate sd)
     \<lparr>PackageName = ''api'', ServiceName = ''Broken'', Methods = []\<rparr>
   \<and> generateAll
     \<lparr>outputDir = ''out'', importsProcess = Inr, pathJoin = (\<lambda>d f. d @ ''/'' @ f),
      unicodeToLower = (\<lambda>s. s), createError = (\<lambda>p. None), writeError = (\<lambda>p d. None)\<rparr>
     (\<lambda>sd. if ServiceName sd = ''Broken'' then Inl ''template: error''
           else parsedClientTemplate sd)
     ([\<lparr>PackageName = ''api'', ServiceName = ''Echo'', Methods = []\<rparr>]
       @ \<lparr>PackageName = ''api'', ServiceName = ''Broken'', Methods = []\<rparr>
       # [\<lparr>PackageName = ''api'', ServiceName = ''Later'', Methods = []\<rparr>])
     Map.empty
   = (1, [''out/echo_client_gen.go'' \<mapsto>
           executeClientTemplate \<lparr>PackageName = ''api'', ServiceName = ''Echo'', Methods = []\<rparr>])"
proof -
  have a: "generateAll
     \<lparr>outputDir = ''out'', importsProcess = Inr, pathJoin = (\<lambda>d f. d @ ''/'' @ f),
      unicodeToLower = (\<lambda>s. s), createError = (\<lambda>p. None), writeError = (\<lambda>p d. None)\<rparr>
     (\<lambda>sd. if ServiceName sd = ''Broken'' then Inl ''template: error''
           else parsedClientTemplate sd)
     [\<lparr>PackageName = ''api'', ServiceName = ''Echo'', Methods = []\<rparr>]
     Map.empty
   = (0, [''out/echo_client_gen.go'' \<mapsto>
           executeClientTemplate \<lparr>PackageName = ''api'', ServiceName = ''Echo'', Methods = []\<rparr>])"
    by (simp add: generateClientCode_def parsedClientTemplate_def ToLower_Echo)
  have b: "renderFails
     \<lparr>outputDir = ''out'', importsProcess = Inr, pathJoin = (\<lambda>d f. d @ ''/'' @ f),
      unicodeToLower = (\<lambda>s. s), createError = (\<lambda>p. None), writeError = (\<lambda>p d. None)\<rparr>
     (\<lambda>sd. if ServiceName sd = ''Broken'' then Inl ''template: error''
           else parsedClientTemplate sd)
     \<lparr>PackageName = ''api'', ServiceName = ''Broken'', Methods = []\<rparr>"
    by (simp add: renderFails_def)
  from render_failure_halts [OF a b] a b show ?thesis by blast
qed

text \<open>
  C8. A successful generation writes exactly one file, named by the lower-cased
  service name followed by \<open>_client_gen.go\<close>, in the output directory; no generation,
  successful or not, touches a file of another name; and \<open>UserService\<close> gives
  \<open>userservice_client_gen.go\<close>.
\<close>

theorem output_file_name:
  "(generateClientCode env temp sd fs = (None, fs') \<longrightarrow>
      (\<exists>formatted. fs' = fs(pathJoin env (outputDir env)
          (ToLower env (ServiceName sd) @ ''_client_gen.go'') \<mapsto> formatted))) \<and>
   (q \<noteq> pathJoin env (outputDir env) (ToLower env (ServiceName sd) @ ''_client_gen.go'') \<longrightarrow>
      snd (generateClientCode env temp sd fs) q = fs q) \<and>
   ToLower env ''UserService'' @ ''_client_gen.go'' = ''userservice_client_gen.go''"
  using generateClientCode_success [of env temp sd fs fs']
    generateClientCode_frame [of q env sd temp fs] ToLower_UserService [of env]
  by auto

theorem output_file_name_witness:
  "generateClientCode
     \<lparr>outputDir = ''out'', importsProcess = Inr, pathJoin = (\<lambda>d f. d @ ''/'' @ f),
      unicodeToLower = (\<lambda>s. s), createError = (\<lambda>p. None), writeError = (\<lambda>p d. None)\<rparr>
     parsedClientTemplate
     \<lparr>PackageName = ''api'', ServiceName = ''UserService'', Methods = []\<rparr>
     Map.empty
   = (None, [''out/userservice_client_gen.go'' \<mapsto> executeClientTemplate
        \<lparr>PackageName = ''api'', ServiceName = ''UserService'', Methods = []\<rparr>])
   \<and> ''out/other.go'' \<noteq> ''out/userservice_client_gen.go''
   \<and> snd (generateClientCode
     \<lparr>outputDir = ''out'', importsProcess = Inr, pathJoin = (\<lambda>d f. d @ ''/'' @ f),
      unicodeToLower = (\<lambda>s. s), createError = (\<lambda>p. None), writeError = (\<lambda>p d. None)\<rparr>
     parsedClientTemplate
     \<lparr>PackageName = ''api'', ServiceName = ''UserService'', Methods = []\<rparr>
     Map.empty) ''out/other.go'' = None"
proof -
  have a: "generateClientCode
     \<lparr>outputDir = ''out'', importsProcess = Inr, pathJoin = (\<lambda>d f. d @ ''/'' @ f),
      unicodeToLower = (\<lambda>s. s), createError = (\<lambda>p. None), writeError = (\<lambda>p d. None)\<rparr>
     parsedClientTemplate
     \<lparr>PackageName = ''api'', ServiceName = ''UserService'', Methods = []\<rparr>
     Map.empty
   = (None, [''out/userservice_client_gen.go'' \<mapsto> executeClientTemplate
        \<lparr>PackageName = ''api'', ServiceName = ''UserService'', Methods = []\<rparr>])"
    by (simp add: generateClientCode_def parsedClientTemplate_def ToLower_UserService)
  from output_file_name [of
     "\<lparr>outputDir = ''out'', importsProcess = Inr, pathJoin = (\<lambda>d f. d @ ''/'' @ f),
      unicodeToLower = (\<lambda>s. s), createError = (\<lambda>p. None), writeError = (\<lambda>p d. None)\<rparr>"
     parsedClientTemplate
     "\<lparr>PackageName = ''api'', ServiceName = ''UserService'', Methods = []\<rparr>"
     Map.empty
     "[''out/userservice_client_gen.go'' \<mapsto> executeClientTemplate
        \<lparr>PackageName = ''api'', ServiceName = ''UserService'', Methods = []\<rparr>]"
     "''out/other.go''"] a
  show ?thesis by (simp add: ToLower_UserService)
qed

text \<open>
  C10, as amended. \<open>extractTypeName\<close> is defined on every expression, and on an
  expression that is neither an identifier nor a pointer it is \<open>unknown\<close>. So an
  accepted method whose first result is a pointer to an expression that is neither
  an identifier nor a pointer has, at its place among the methods of the extracted
  service, a record whose response type name is \<open>unknown\<close>.
\<close>

theorem unknown_response_type:
  "(\<not> isIdent e \<and> \<not> isStarExpr e \<longrightarrow> extractTypeName e = ''unknown'') \<and>
   (extractMethods (InterfaceType (pre @ Field (nm # nms) (FuncTypeExpr ft) # post)) = Inr ms \<and>
    validateMethodSignature (Some ft) = Inr True \<and>
    Results ft = Some (Field rn (StarExpr x) # rs) \<and> \<not> isIdent x \<and> \<not> isStarExpr x \<longrightarrow>
      (\<exists>req. ms = concat (map methodOf pre)
                 @ \<lparr>Name = nm, RequestType = req, ResponseType = ''unknown''\<rparr>
                 # concat (map methodOf post)))"
proof (intro conjI impI)
  assume "\<not> isIdent e \<and> \<not> isStarExpr e"
  then show "extractTypeName e = ''unknown''" by (cases e) auto
next
  assume a: "extractMethods (InterfaceType (pre @ Field (nm # nms) (FuncTypeExpr ft) # post)) = Inr ms \<and>
    validateMethodSignature (Some ft) = Inr True \<and>
    Results ft = Some (Field rn (StarExpr x) # rs) \<and> \<not> isIdent x \<and> \<not> isStarExpr x"
  then have u: "extractTypeName x = ''unknown''" by (cases x) auto
  from a have ms: "ms = concat (map methodOf (pre @ Field (nm # nms) (FuncTypeExpr ft) # post))"
    using loop_methodOf [of "pre @ Field (nm # nms) (FuncTypeExpr ft) # post" "[]" ms] by simp
  from a methodOf_accepted [of ft] obtain req where
    "methodOf (Field (nm # nms) (FuncTypeExpr ft)) =
       [\<lparr>Name = nm, RequestType = req, ResponseType = extractTypeName x\<rparr>]"
    by auto
  with ms u show "\<exists>req. ms = concat (map methodOf pre)
                 @ \<lparr>Name = nm, RequestType = req, ResponseType = ''unknown''\<rparr>
                 # concat (map methodOf post)"
    by simp
qed

theorem unknown_response_type_witness:
  "\<not> isIdent (ArrayType (Ident ''Resp'')) \<and> \<not> isStarExpr (ArrayType (Ident ''Resp'')) \<and>
   extractTypeName (ArrayType (Ident ''Resp'')) = ''unknown'' \<and>
   validateMethodSignature (Some (FuncType
      (Some [Field [''ctx''] (SelectorExpr (Ident ''context'') ''Context''),
             Field [''req''] (Ident ''Req'')])
      (Some [Field [] (StarExpr (ArrayType (Ident ''Resp''))), Field [] (Ident ''error'')])))
     = Inr True \<and>
   extractMethods (InterfaceType ([] @ Field [''List''] (FuncTypeExpr (FuncType
      (Some [Field [''ctx''] (SelectorExpr (Ident ''context'') ''Context''),
             Field [''req''] (Ident ''Req'')])
      (Some [Field [] (StarExpr (ArrayType (Ident ''Resp''))), Field [] (Ident ''error'')])))
      # []))
     = Inr [\<lparr>Name = ''List'', RequestType = ''Req'', ResponseType = ''unknown''\<rparr>]"
  using unknown_response_type [of "ArrayType (Ident ''Resp'')" "[]" "''List''" "[]" "FuncType
      (Some [Field [''ctx''] (SelectorExpr (Ident ''context'') ''Context''),
             Field [''req''] (Ident ''Req'')])
      (Some [Field [] (StarExpr (ArrayType (Ident ''Resp''))), Field [] (Ident ''error'')])"
      "[]" "[\<lparr>Name = ''List'', RequestType = ''Req'', ResponseType = ''unknown''\<rparr>]"
      "[]" "ArrayType (Ident ''Resp'')" "[Field [] (Ident ''error'')]"]
  by (simp add: validateMethodSignature_def TrimPrefix_def HasPrefix_def)

text \<open>
  C10 as stated fails: in \<open>List(ctx context.Context, req Req) (**Resp, error)\<close> the
  first result is a pointer to \<open>*Resp\<close>, a composite type and no identifier, and the
  response type name is \<open>*Resp\<close>, not \<open>unknown\<close>.
\<close>

theorem pointer_to_pointer_not_unknown_counterexample:
  "\<not> isIdent (StarExpr (Ident ''Resp''))
   \<and> validateMethodSignature (Some (FuncType
      (Some [Field [''ctx''] (SelectorExpr (Ident ''context'') ''Context''),
             Field [''req''] (Ident ''Req'')])
      (Some [Field [] (StarExpr (StarExpr (Ident ''Resp''))), Field [] (Ident ''error'')])))
     = Inr True
   \<and> extractMethods (InterfaceType [Field [''List''] (FuncTypeExpr (FuncType
      (Some [Field [''ctx''] (SelectorExpr (Ident ''context'') ''Context''),
             Field [''req''] (Ident ''Req'')])
      (Some [Field [] (StarExpr (StarExpr (Ident ''Resp''))), Field [] (Ident ''error'')])))])
     = Inr [\<lparr>Name = ''List'', RequestType = ''Req'', ResponseType = ''*Resp''\<rparr>]
   \<and> ''*Resp'' \<noteq> ''unknown''"
  by (simp add: validateMethodSignature_def TrimPrefix_def HasPrefix_def)

end
